theory Spec2Isabelle
  imports Main "HOL-Library.Sublist"
begin

section \<open>The dbt interface client of vscode-sqlfluff\<close>

text \<open>
  A shallow embedding of \<^verbatim>\<open>src/features/helper/dbtInterface.ts\<close>. The class
  \<^verbatim>\<open>DbtInterface\<close> builds the URLs of a local HTTP service, probes its health and
  posts lint and format requests guarded by a timer. What the TypeScript does through
  its runtime is explicit here:
  \<^item> the configuration lookups, \<^verbatim>\<open>encodeURI\<close> and the network are arguments;
  \<^item> every \<^verbatim>\<open>fetch\<close>, every line appended to the output channel, every
    \<^verbatim>\<open>setTimeout\<close> and every \<^verbatim>\<open>clearTimeout\<close> is recorded in a \<open>world\<close>,
    passed in and returned updated;
  \<^item> a promise that rejects (an exception at an \<^verbatim>\<open>await\<close>) is \<open>Inl\<close>, one that
    resolves is \<open>Inr\<close>.
\<close>

subsection \<open>Data\<close>

datatype DbtInterfaceErrorCode =
  FailedToReachServer
  | CompileSqlFailure
  | ExecuteSqlFailure
  | ProjectParseFailure
  | UnlintableUnfixable

text \<open>The numbers the enum \<^verbatim>\<open>DbtInterfaceErrorCode\<close> gives its members.\<close>

fun code_number :: "DbtInterfaceErrorCode \<Rightarrow> int" where
  "code_number FailedToReachServer = -1"
| "code_number CompileSqlFailure = 1"
| "code_number ExecuteSqlFailure = 2"
| "code_number ProjectParseFailure = 3"
| "code_number UnlintableUnfixable = 0"

text \<open>A value of the detail mapping \<^verbatim>\<open>{ [index: string]: string | number }\<close>.\<close>

datatype detail = DString string | DNumber int

record error_body =
  code :: DbtInterfaceErrorCode
  message :: string
  data :: "(string \<times> detail) list"

record DbtInterfaceErrorContainer =
  error :: error_body

definition projectNotRegisteredError :: DbtInterfaceErrorContainer where
  "projectNotRegisteredError =
     \<lparr>error = \<lparr>code = CompileSqlFailure,
        message = ''Sqlfluff currently unavailable. Check that your project does not contain compilation errors.'',
        data = [(''error'', DString '''')]\<rparr>\<rparr>"

text \<open>
  \<^verbatim>\<open>Configuration.dbtInterfaceHost()\<close> and \<^verbatim>\<open>Configuration.dbtInterfacePort()\<close>
  are not part of this file; the record holds what the two lookups return, the port as
  the text a template literal interpolates for it.
\<close>

record configuration =
  dbtInterfaceHost :: string
  dbtInterfacePort :: string

text \<open>The three private fields of a \<^verbatim>\<open>DbtInterface\<close>; \<open>None\<close> is \<^verbatim>\<open>undefined\<close>.\<close>

record DbtInterface =
  sql :: "string option"
  sql_path :: "string option"
  extra_config_path :: string

definition constructor :: "string option \<Rightarrow> string option \<Rightarrow> string \<Rightarrow> DbtInterface" where
  "constructor s p e = \<lparr>sql = s, sql_path = p, extra_config_path = e\<rparr>"

text \<open>What a template literal interpolates for a \<^verbatim>\<open>string | undefined\<close>.\<close>

fun interpolate :: "string option \<Rightarrow> string" where
  "interpolate None = ''undefined''"
| "interpolate (Some s) = s"

subsection \<open>URL construction\<close>

definition getLintURL :: "configuration \<Rightarrow> DbtInterface \<Rightarrow> string" where
  "getLintURL cfg this =
     (let url = ''http://'' @ dbtInterfaceHost cfg @ '':'' @ dbtInterfacePort cfg
                  @ ''/lint?sql_path='' @ interpolate (sql_path this);
          url = (if sql this \<noteq> None
                 then ''http://'' @ dbtInterfaceHost cfg @ '':'' @ dbtInterfacePort cfg @ ''/lint?''
                 else url);
          url = (if extra_config_path this \<noteq> []
                 then url @ ''&extra_config_path='' @ extra_config_path this
                 else url)
      in url)"

definition getFormatURL :: "configuration \<Rightarrow> DbtInterface \<Rightarrow> string" where
  "getFormatURL cfg this =
     (let url = ''http://'' @ dbtInterfaceHost cfg @ '':'' @ dbtInterfacePort cfg
                  @ ''/format?sql_path='' @ interpolate (sql_path this);
          url = (if sql this \<noteq> None
                 then ''http://'' @ dbtInterfaceHost cfg @ '':'' @ dbtInterfacePort cfg @ ''/format?''
                 else url);
          url = (if extra_config_path this \<noteq> []
                 then url @ ''&extra_config_path='' @ extra_config_path this
                 else url)
      in url)"

subsection \<open>The runtime: exceptions, network, timers, output channel\<close>

text \<open>
  The values a rejected promise or a \<^verbatim>\<open>throw\<close> carries: the abort raised when an
  \<^verbatim>\<open>AbortController\<close> fires, a failure of \<^verbatim>\<open>fetch\<close>, a failure of
  \<^verbatim>\<open>response.json()\<close>, and the \<^verbatim>\<open>URIError\<close> of \<^verbatim>\<open>encodeURI\<close>.
\<close>

datatype exn =
  AbortError
  | FetchError string
  | InvalidJson string
  | URIError

text \<open>The \<^verbatim>\<open>method\<close> option of a \<^verbatim>\<open>fetch\<close> is the field \<open>requestMethod\<close>.\<close>

datatype http_method = GET | POST

record request = requestMethod :: http_method  url :: string  body :: "string option"

text \<open>
  A \<^verbatim>\<open>Response\<close>: its status and what its \<^verbatim>\<open>json()\<close> promise settles with,
  a rejection when the body is not JSON. The parsed value has any type \<open>'j\<close>.
\<close>

record 'j response =
  status :: int
  json :: "exn + 'j"

text \<open>
  How the network treats one request: it answers after some milliseconds, fails after
  some milliseconds, or never settles.
\<close>

datatype 'j behaviour =
  Responds nat "'j response"
  | Fails nat exn
  | Hangs

type_synonym 'j network = "request \<Rightarrow> 'j behaviour"

text \<open>One entry of \<^verbatim>\<open>Utilities.outputChannel\<close>.\<close>

datatype log_line =
  HyphenatedLine
  | Line string
  | ErrorLine exn

record world =
  requests :: "request list"
  outputChannel :: "log_line list"
  timers :: "(nat \<times> int) list"
  cleared :: "nat list"

text \<open>
  \<^verbatim>\<open>setTimeout(() => abortController.abort(), delay)\<close>: the handle is fresh, the
  call is recorded with its delay.
\<close>

definition setTimeout :: "int \<Rightarrow> world \<Rightarrow> nat \<times> world" where
  "setTimeout delay w =
     (length (timers w), w\<lparr>timers := timers w @ [(length (timers w), delay)]\<rparr>)"

definition clearTimeout :: "nat \<Rightarrow> world \<Rightarrow> world" where
  "clearTimeout h w = w\<lparr>cleared := cleared w @ [h]\<rparr>"

definition appendHyphenatedLine :: "world \<Rightarrow> world" where
  "appendHyphenatedLine w = w\<lparr>outputChannel := outputChannel w @ [HyphenatedLine]\<rparr>"

definition appendLine :: "log_line \<Rightarrow> world \<Rightarrow> world" where
  "appendLine l w = w\<lparr>outputChannel := outputChannel w @ [l]\<rparr>"

text \<open>
  What a \<^verbatim>\<open>fetch\<close> whose signal is aborted after \<open>delay\<close> milliseconds settles
  with: the network's answer when it comes before the abort, \<open>AbortError\<close> otherwise.
  The timer is taken to fire after the delay it was given; how a runtime rounds a
  delay that is negative or too large is left out, and the statements below hold
  for every network and every delay.
\<close>

fun settle :: "int \<Rightarrow> 'j behaviour \<Rightarrow> exn + 'j response" where
  "settle delay (Responds t r) = (if int t < delay then Inr r else Inl AbortError)"
| "settle delay (Fails t e) = (if int t < delay then Inl e else Inl AbortError)"
| "settle delay Hangs = Inl AbortError"

definition fetch :: "'j network \<Rightarrow> int \<Rightarrow> request \<Rightarrow> world \<Rightarrow> (exn + 'j response) \<times> world" where
  "fetch net delay req w = (settle delay (net req), w\<lparr>requests := requests w @ [req]\<rparr>)"

subsection \<open>The health check\<close>

definition healthURL :: "configuration \<Rightarrow> string" where
  "healthURL cfg = ''http://'' @ dbtInterfaceHost cfg @ '':'' @ dbtInterfacePort cfg @ ''/health''"

definition healthCheck :: "configuration \<Rightarrow> 'j network \<Rightarrow> world \<Rightarrow> (exn + bool) \<times> world" where
  "healthCheck cfg net w =
     (let (timeoutHandler, w1) = setTimeout 1000 w;
          (fetched, w2) = fetch net 1000 \<lparr>requestMethod = GET, url = healthURL cfg, body = None\<rparr> w1;
          result = (case fetched of
                      Inr response \<Rightarrow> if status response = 200 then Inr True else Inr False
                    | Inl e \<Rightarrow> Inr False)
      in (result, clearTimeout timeoutHandler w2))"

subsection \<open>Lint and format\<close>

text \<open>
  What \<^verbatim>\<open>lint\<close> and \<^verbatim>\<open>format\<close> resolve with: one of the two error containers
  built in this file, or the value \<^verbatim>\<open>response.json()\<close> gave, cast to \<^verbatim>\<open>T\<close>.
\<close>

datatype 'j payload =
  ErrorContainer DbtInterfaceErrorContainer
  | Parsed 'j

text \<open>
  The constant \<^verbatim>\<open>failedToReachServerError\<close>, which \<^verbatim>\<open>lint\<close> and \<^verbatim>\<open>format\<close>
  each build, with the same text, before anything else.
\<close>

definition failedToReachServerError :: "configuration \<Rightarrow> DbtInterfaceErrorContainer" where
  "failedToReachServerError cfg =
     \<lparr>error = \<lparr>code = FailedToReachServer,
        message = ''Query failed to reach dbt sync server.'',
        data = [(''error'', DString (''Is the server listening on the http://''
                   @ dbtInterfaceHost cfg @ '':'' @ dbtInterfacePort cfg @ '' address?''))]\<rparr>\<rparr>"

text \<open>The default parameter \<^verbatim>\<open>timeout = 25000\<close>; \<open>None\<close> is an omitted argument.\<close>

fun timeoutOrDefault :: "int option \<Rightarrow> int" where
  "timeoutOrDefault None = 25000"
| "timeoutOrDefault (Some t) = t"

text \<open>
  \<^verbatim>\<open>encodeURI\<close> is the runtime's: an argument, which may throw (\<open>Inl\<close>). It is
  called inside the \<^verbatim>\<open>try\<close> block, so its exception reaches the \<^verbatim>\<open>catch\<close>
  like a rejected \<^verbatim>\<open>fetch\<close> does, with no request made.
\<close>

definition lint ::
  "configuration \<Rightarrow> 'j network \<Rightarrow> (string \<Rightarrow> exn + string) \<Rightarrow> DbtInterface \<Rightarrow> int option \<Rightarrow> world
     \<Rightarrow> (exn + 'j payload) \<times> world" where
  "lint cfg net encodeURI this timeout_arg w =
     (let timeout = timeoutOrDefault timeout_arg;
          (healthy, w1) = healthCheck cfg net w
      in case healthy of
           Inl e \<Rightarrow> (Inl e, w1)
         | Inr ok \<Rightarrow>
             if \<not> ok then
               (Inr (ErrorContainer projectNotRegisteredError),
                appendHyphenatedLine (appendLine (Line ''Unhealthy dbt project:'')
                  (appendHyphenatedLine w1)))
             else
               let (timeoutHandler, w2) = setTimeout timeout w1;
                   (attempt, w3) =
                     (case encodeURI (getLintURL cfg this) of
                        Inl e \<Rightarrow> (Inl e, w2)
                      | Inr u \<Rightarrow> fetch net timeout \<lparr>requestMethod = POST, url = u, body = sql this\<rparr> w2)
               in case attempt of
                    Inl err \<Rightarrow>
                      (Inr (ErrorContainer (failedToReachServerError cfg)),
                       clearTimeout timeoutHandler
                         (appendHyphenatedLine (appendLine (ErrorLine err)
                           (appendHyphenatedLine
                             (appendLine (Line ''Raw dbt-core-interface /lint error response:'')
                               (appendHyphenatedLine w3))))))
                  | Inr response \<Rightarrow>
                      (case json response of
                         Inl e \<Rightarrow> (Inl e, clearTimeout timeoutHandler w3)
                       | Inr v \<Rightarrow> (Inr (Parsed v), clearTimeout timeoutHandler w3)))"

definition format ::
  "configuration \<Rightarrow> 'j network \<Rightarrow> (string \<Rightarrow> exn + string) \<Rightarrow> DbtInterface \<Rightarrow> int option \<Rightarrow> world
     \<Rightarrow> (exn + 'j payload) \<times> world" where
  "format cfg net encodeURI this timeout_arg w =
     (let timeout = timeoutOrDefault timeout_arg;
          (healthy, w1) = healthCheck cfg net w
      in case healthy of
           Inl e \<Rightarrow> (Inl e, w1)
         | Inr ok \<Rightarrow>
             if \<not> ok then
               (Inr (ErrorContainer projectNotRegisteredError),
                appendHyphenatedLine (appendLine (Line ''Unhealthy dbt project:'')
                  (appendHyphenatedLine w1)))
             else
               let (timeoutHandler, w2) = setTimeout timeout w1;
                   (attempt, w3) =
                     (case encodeURI (getFormatURL cfg this) of
                        Inl e \<Rightarrow> (Inl e, w2)
                      | Inr u \<Rightarrow> fetch net timeout \<lparr>requestMethod = POST, url = u, body = sql this\<rparr> w2)
               in case attempt of
                    Inl err \<Rightarrow>
                      (Inr (ErrorContainer (failedToReachServerError cfg)),
                       clearTimeout timeoutHandler
                         (appendHyphenatedLine (appendLine (ErrorLine err)
                           (appendHyphenatedLine
                             (appendLine (Line ''Raw dbt-core-interface /format error response:'')
                               (appendHyphenatedLine w3))))))
                  | Inr response \<Rightarrow>
                      (case json response of
                         Inl e \<Rightarrow> (Inl e, clearTimeout timeoutHandler w3)
                       | Inr v \<Rightarrow> (Inr (Parsed v), clearTimeout timeoutHandler w3)))"

subsection \<open>What the two requests settle with\<close>

text \<open>
  The value the \<^verbatim>\<open>await fetch(...)\<close> of \<^verbatim>\<open>healthCheck\<close> settles with, and the
  value the \<^verbatim>\<open>try\<close> block of \<^verbatim>\<open>lint\<close> (of \<^verbatim>\<open>format\<close>) settles with: they name
  the network's part in the statements below.
\<close>

definition healthResponse :: "configuration \<Rightarrow> 'j network \<Rightarrow> exn + 'j response" where
  "healthResponse cfg net = settle 1000 (net \<lparr>requestMethod = GET, url = healthURL cfg, body = None\<rparr>)"

definition lintResponse ::
  "configuration \<Rightarrow> 'j network \<Rightarrow> (string \<Rightarrow> exn + string) \<Rightarrow> DbtInterface \<Rightarrow> int option
     \<Rightarrow> exn + 'j response" where
  "lintResponse cfg net encodeURI this timeout_arg =
     (case encodeURI (getLintURL cfg this) of
        Inl e \<Rightarrow> Inl e
      | Inr u \<Rightarrow> settle (timeoutOrDefault timeout_arg)
                   (net \<lparr>requestMethod = POST, url = u, body = sql this\<rparr>))"

definition formatResponse ::
  "configuration \<Rightarrow> 'j network \<Rightarrow> (string \<Rightarrow> exn + string) \<Rightarrow> DbtInterface \<Rightarrow> int option
     \<Rightarrow> exn + 'j response" where
  "formatResponse cfg net encodeURI this timeout_arg =
     (case encodeURI (getFormatURL cfg this) of
        Inl e \<Rightarrow> Inl e
      | Inr u \<Rightarrow> settle (timeoutOrDefault timeout_arg)
                   (net \<lparr>requestMethod = POST, url = u, body = sql this\<rparr>))"

text \<open>
  The requests, the timers and the \<^verbatim>\<open>clearTimeout\<close> calls that an invocation
  taking the world from \<open>w\<close> to \<open>w'\<close> added.
\<close>

definition requestsDuring :: "world \<Rightarrow> world \<Rightarrow> request list" where
  "requestsDuring w w' = drop (length (requests w)) (requests w')"

definition timersDuring :: "world \<Rightarrow> world \<Rightarrow> (nat \<times> int) list" where
  "timersDuring w w' = drop (length (timers w)) (timers w')"

definition clearedDuring :: "world \<Rightarrow> world \<Rightarrow> nat list" where
  "clearedDuring w w' = drop (length (cleared w)) (cleared w')"

definition outputDuring :: "world \<Rightarrow> world \<Rightarrow> log_line list" where
  "outputDuring w w' = drop (length (outputChannel w)) (outputChannel w')"

text \<open>
  An invocation that took the world from \<open>w\<close> to \<open>w'\<close> kept what was recorded
  before it, created at least one timer, and called \<^verbatim>\<open>clearTimeout\<close> on exactly
  the handles it created, each of them once.
\<close>

definition clearsItsTimers :: "world \<Rightarrow> world \<Rightarrow> bool" where
  "clearsItsTimers w w' =
     (timers w' = timers w @ timersDuring w w'
      \<and> cleared w' = cleared w @ clearedDuring w w'
      \<and> timersDuring w w' \<noteq> []
      \<and> clearedDuring w w' = map fst (timersDuring w w')
      \<and> distinct (clearedDuring w w'))"

subsection \<open>Concrete inputs\<close>

text \<open>
  The interface \<^verbatim>\<open>DbtInterfaceCompileResult\<close> of the source, the shape of the body
  \<^verbatim>\<open>{"result":"ok"}\<close>, and the inputs at which the statements below are evaluated:
  a configuration, an empty world, an instance in path mode, an \<^verbatim>\<open>encodeURI\<close>
  that has nothing to escape (true of the URLs built from these inputs), and five
  networks.
\<close>

record DbtInterfaceCompileResult =
  result :: string

definition ex_cfg :: configuration where
  "ex_cfg = \<lparr>dbtInterfaceHost = ''localhost'', dbtInterfacePort = ''8581''\<rparr>"

definition ex_world :: world where
  "ex_world = \<lparr>requests = [], outputChannel = [], timers = [], cleared = []\<rparr>"

definition ex_path_mode :: DbtInterface where
  "ex_path_mode = constructor None (Some ''models/a.sql'') ''''"

definition plainEncodeURI :: "string \<Rightarrow> exn + string" where
  "plainEncodeURI s = Inr s"

definition ex_ok :: "DbtInterfaceCompileResult response" where
  "ex_ok = \<lparr>status = 200, json = Inr \<lparr>result = ''ok''\<rparr>\<rparr>"

definition ex_not_json :: "DbtInterfaceCompileResult response" where
  "ex_not_json = \<lparr>status = 500, json = Inl (InvalidJson ''Unexpected token < in JSON at position 0'')\<rparr>"

definition net_down :: "DbtInterfaceCompileResult network" where
  "net_down req = Fails 2 (FetchError ''ECONNREFUSED'')"

definition net_post_refused :: "DbtInterfaceCompileResult network" where
  "net_post_refused req =
     (if requestMethod req = GET then Responds 5 ex_ok else Fails 2 (FetchError ''ECONNRESET''))"

definition net_post_hangs :: "DbtInterfaceCompileResult network" where
  "net_post_hangs req = (if requestMethod req = GET then Responds 5 ex_ok else Hangs)"

definition net_ok :: "DbtInterfaceCompileResult network" where
  "net_ok req = Responds 5 ex_ok"

definition net_not_json :: "DbtInterfaceCompileResult network" where
  "net_not_json req = (if requestMethod req = GET then Responds 5 ex_ok else Responds 40 ex_not_json)"

section \<open>Properties\<close>

subsection \<open>Each path of the three operations, written out\<close>

lemma healthCheck_eq:
  "healthCheck cfg net w =
     (Inr (case healthResponse cfg net of Inr r \<Rightarrow> status r = 200 | Inl e \<Rightarrow> False),
      w\<lparr>requests := requests w @ [\<lparr>requestMethod = GET, url = healthURL cfg, body = None\<rparr>],
        timers := timers w @ [(length (timers w), 1000)],
        cleared := cleared w @ [length (timers w)]\<rparr>)"
  by (simp add: healthCheck_def healthResponse_def setTimeout_def fetch_def clearTimeout_def
      split: sum.splits)

lemma healthCheck_bool:
  "fst (healthCheck cfg net w) = Inr True \<or> fst (healthCheck cfg net w) = Inr False"
  by (simp add: healthCheck_eq)

lemma lint_unhealthy_eq:
  assumes "fst (healthCheck cfg net w) = Inr False"
  shows "lint cfg net enc this t w =
     (Inr (ErrorContainer projectNotRegisteredError),
      w\<lparr>requests := requests w @ [\<lparr>requestMethod = GET, url = healthURL cfg, body = None\<rparr>],
        outputChannel := outputChannel w
          @ [HyphenatedLine, Line ''Unhealthy dbt project:'', HyphenatedLine],
        timers := timers w @ [(length (timers w), 1000)],
        cleared := cleared w @ [length (timers w)]\<rparr>)"
  using assms
  by (simp add: lint_def healthCheck_eq appendHyphenatedLine_def appendLine_def split: sum.splits)

lemma lint_rejected_eq:
  assumes "fst (healthCheck cfg net w) = Inr True" and "lintResponse cfg net enc this t = Inl e"
  shows "lint cfg net enc this t w =
     (Inr (ErrorContainer (failedToReachServerError cfg)),
      w\<lparr>requests := requests w @ [\<lparr>requestMethod = GET, url = healthURL cfg, body = None\<rparr>]
            @ (case enc (getLintURL cfg this) of Inl x \<Rightarrow> []
               | Inr u \<Rightarrow> [\<lparr>requestMethod = POST, url = u, body = sql this\<rparr>]),
        outputChannel := outputChannel w @ [HyphenatedLine,
            Line ''Raw dbt-core-interface /lint error response:'', HyphenatedLine,
            ErrorLine e, HyphenatedLine],
        timers := timers w @ [(length (timers w), 1000), (Suc (length (timers w)), timeoutOrDefault t)],
        cleared := cleared w @ [length (timers w), Suc (length (timers w))]\<rparr>)"
  using assms
  by (simp add: lint_def lintResponse_def healthCheck_eq appendHyphenatedLine_def appendLine_def
      setTimeout_def fetch_def clearTimeout_def split: sum.splits)

lemma lint_resolved_eq:
  assumes "fst (healthCheck cfg net w) = Inr True" and "lintResponse cfg net enc this t = Inr r"
  shows "lint cfg net enc this t w =
     ((case json r of Inl e \<Rightarrow> Inl e | Inr v \<Rightarrow> Inr (Parsed v)),
      w\<lparr>requests := requests w @ [\<lparr>requestMethod = GET, url = healthURL cfg, body = None\<rparr>]
            @ (case enc (getLintURL cfg this) of Inl x \<Rightarrow> []
               | Inr u \<Rightarrow> [\<lparr>requestMethod = POST, url = u, body = sql this\<rparr>]),
        timers := timers w @ [(length (timers w), 1000), (Suc (length (timers w)), timeoutOrDefault t)],
        cleared := cleared w @ [length (timers w), Suc (length (timers w))]\<rparr>)"
  using assms
  by (simp add: lint_def lintResponse_def healthCheck_eq appendHyphenatedLine_def appendLine_def
      setTimeout_def fetch_def clearTimeout_def split: sum.splits)

lemma format_unhealthy_eq:
  assumes "fst (healthCheck cfg net w) = Inr False"
  shows "format cfg net enc this t w =
     (Inr (ErrorContainer projectNotRegisteredError),
      w\<lparr>requests := requests w @ [\<lparr>requestMethod = GET, url = healthURL cfg, body = None\<rparr>],
        outputChannel := outputChannel w
          @ [HyphenatedLine, Line ''Unhealthy dbt project:'', HyphenatedLine],
        timers := timers w @ [(length (timers w), 1000)],
        cleared := cleared w @ [length (timers w)]\<rparr>)"
  using assms
  by (simp add: format_def healthCheck_eq appendHyphenatedLine_def appendLine_def split: sum.splits)

lemma format_rejected_eq:
  assumes "fst (healthCheck cfg net w) = Inr True" and "formatResponse cfg net enc this t = Inl e"
  shows "format cfg net enc this t w =
     (Inr (ErrorContainer (failedToReachServerError cfg)),
      w\<lparr>requests := requests w @ [\<lparr>requestMethod = GET, url = healthURL cfg, body = None\<rparr>]
            @ (case enc (getFormatURL cfg this) of Inl x \<Rightarrow> []
               | Inr u \<Rightarrow> [\<lparr>requestMethod = POST, url = u, body = sql this\<rparr>]),
        outputChannel := outputChannel w @ [HyphenatedLine,
            Line ''Raw dbt-core-interface /format error response:'', HyphenatedLine,
            ErrorLine e, HyphenatedLine],
        timers := timers w @ [(length (timers w), 1000), (Suc (length (timers w)), timeoutOrDefault t)],
        cleared := cleared w @ [length (timers w), Suc (length (timers w))]\<rparr>)"
  using assms
  by (simp add: format_def formatResponse_def healthCheck_eq appendHyphenatedLine_def appendLine_def
      setTimeout_def fetch_def clearTimeout_def split: sum.splits)

lemma format_resolved_eq:
  assumes "fst (healthCheck cfg net w) = Inr True" and "formatResponse cfg net enc this t = Inr r"
  shows "format cfg net enc this t w =
     ((case json r of Inl e \<Rightarrow> Inl e | Inr v \<Rightarrow> Inr (Parsed v)),
      w\<lparr>requests := requests w @ [\<lparr>requestMethod = GET, url = healthURL cfg, body = None\<rparr>]
            @ (case enc (getFormatURL cfg this) of Inl x \<Rightarrow> []
               | Inr u \<Rightarrow> [\<lparr>requestMethod = POST, url = u, body = sql this\<rparr>]),
        timers := timers w @ [(length (timers w), 1000), (Suc (length (timers w)), timeoutOrDefault t)],
        cleared := cleared w @ [length (timers w), Suc (length (timers w))]\<rparr>)"
  using assms
  by (simp add: format_def formatResponse_def healthCheck_eq appendHyphenatedLine_def appendLine_def
      setTimeout_def fetch_def clearTimeout_def split: sum.splits)

text \<open>The path an invocation takes: three cases that cover everything.\<close>

lemma lint_paths:
  obtains (unhealthy) "fst (healthCheck cfg net w) = Inr False"
  | (rejected) e where "fst (healthCheck cfg net w) = Inr True" "lintResponse cfg net enc this t = Inl e"
  | (resolved) r where "fst (healthCheck cfg net w) = Inr True" "lintResponse cfg net enc this t = Inr r"
  using healthCheck_bool [of cfg net w] by (cases "lintResponse cfg net enc this t") auto

lemma format_paths:
  obtains (unhealthy) "fst (healthCheck cfg net w) = Inr False"
  | (rejected) e where "fst (healthCheck cfg net w) = Inr True" "formatResponse cfg net enc this t = Inl e"
  | (resolved) r where "fst (healthCheck cfg net w) = Inr True" "formatResponse cfg net enc this t = Inr r"
  using healthCheck_bool [of cfg net w] by (cases "formatResponse cfg net enc this t") auto

subsection \<open>The claims\<close>

text \<open>
  C1. Whatever the instance and the timeout, when \<^verbatim>\<open>healthCheck\<close> resolves false,
  \<^verbatim>\<open>lint\<close> and \<^verbatim>\<open>format\<close> both resolve with \<^verbatim>\<open>projectNotRegisteredError\<close>
  itself, whose code is \<^verbatim>\<open>CompileSqlFailure\<close>, whose message is the fixed text and
  whose detail field \<^verbatim>\<open>error\<close> is the empty string; the only request either made
  is the GET of the health check, so no POST.
\<close>
theorem unhealthy_returns_projectNotRegisteredError:
  assumes "fst (healthCheck cfg net w) = Inr False"
  shows "fst (lint cfg net enc this t w) = Inr (ErrorContainer projectNotRegisteredError)
    \<and> fst (format cfg net enc this t w) = Inr (ErrorContainer projectNotRegisteredError)
    \<and> requestsDuring w (snd (lint cfg net enc this t w))
        = [\<lparr>requestMethod = GET, url = healthURL cfg, body = None\<rparr>]
    \<and> requestsDuring w (snd (format cfg net enc this t w))
        = [\<lparr>requestMethod = GET, url = healthURL cfg, body = None\<rparr>]
    \<and> POST \<notin> requestMethod ` set (requestsDuring w (snd (lint cfg net enc this t w)))
    \<and> POST \<notin> requestMethod ` set (requestsDuring w (snd (format cfg net enc this t w)))
    \<and> code (error projectNotRegisteredError) = CompileSqlFailure
    \<and> code_number (code (error projectNotRegisteredError)) = 1
    \<and> message (error projectNotRegisteredError)
        = ''Sqlfluff currently unavailable. Check that your project does not contain compilation errors.''
    \<and> data (error projectNotRegisteredError) = [(''error'', DString '''')]"
  by (simp add: lint_unhealthy_eq [OF assms] format_unhealthy_eq [OF assms] requestsDuring_def
      projectNotRegisteredError_def)

theorem unhealthy_returns_projectNotRegisteredError_witness:
  "fst (healthCheck ex_cfg net_down ex_world) = Inr False
   \<and> fst (lint ex_cfg net_down plainEncodeURI ex_path_mode (Some 50) ex_world)
       = Inr (ErrorContainer projectNotRegisteredError)
   \<and> fst (format ex_cfg net_down plainEncodeURI ex_path_mode None ex_world)
       = Inr (ErrorContainer projectNotRegisteredError)
   \<and> requestsDuring ex_world (snd (lint ex_cfg net_down plainEncodeURI ex_path_mode (Some 50) ex_world))
       = [\<lparr>requestMethod = GET, url = ''http://localhost:8581/health'', body = None\<rparr>]"
proof -
  have h: "fst (healthCheck ex_cfg net_down ex_world) = Inr False"
    by (simp add: healthCheck_eq healthResponse_def net_down_def)
  have u: "healthURL ex_cfg = ''http://localhost:8581/health''"
    by (simp add: healthURL_def ex_cfg_def)
  show ?thesis
    using h unhealthy_returns_projectNotRegisteredError [OF h, of plainEncodeURI ex_path_mode "Some 50"]
      unhealthy_returns_projectNotRegisteredError [OF h, of plainEncodeURI ex_path_mode None]
    by (simp add: u)
qed

text \<open>
  C2, as the claim has it, fails. With the health check passing and the POST refused,
  \<^verbatim>\<open>lint\<close> returns the code \<^verbatim>\<open>FailedToReachServer\<close>, but the \<^verbatim>\<open>message\<close> of
  the payload is the fixed sentence, which names neither the configured host
  \<^verbatim>\<open>localhost\<close> nor the configured port \<^verbatim>\<open>8581\<close>: both are in the detail field
  \<^verbatim>\<open>data.error\<close>.
\<close>
theorem failedToReachServer_message_counterexample:
  "fst (healthCheck ex_cfg net_post_refused ex_world) = Inr True
   \<and> lintResponse ex_cfg net_post_refused plainEncodeURI ex_path_mode None
       = Inl (FetchError ''ECONNRESET'')
   \<and> fst (lint ex_cfg net_post_refused plainEncodeURI ex_path_mode None ex_world)
       = Inr (ErrorContainer
           \<lparr>error = \<lparr>code = FailedToReachServer,
              message = ''Query failed to reach dbt sync server.'',
              data = [(''error'',
                DString ''Is the server listening on the http://localhost:8581 address?'')]\<rparr>\<rparr>)
   \<and> dbtInterfaceHost ex_cfg = ''localhost''
   \<and> dbtInterfacePort ex_cfg = ''8581''
   \<and> \<not> sublist ''localhost'' ''Query failed to reach dbt sync server.''
   \<and> \<not> sublist ''8581'' ''Query failed to reach dbt sync server.''"
proof -
  have h: "fst (healthCheck ex_cfg net_post_refused ex_world) = Inr True"
    by (simp add: healthCheck_eq healthResponse_def net_post_refused_def ex_ok_def)
  have p: "lintResponse ex_cfg net_post_refused plainEncodeURI ex_path_mode None
       = Inl (FetchError ''ECONNRESET'')"
    by (simp add: lintResponse_def plainEncodeURI_def net_post_refused_def)
  have s1: "\<not> sublist ''localhost'' ''Query failed to reach dbt sync server.''"
    by code_simp
  have s2: "\<not> sublist ''8581'' ''Query failed to reach dbt sync server.''"
    by code_simp
  have l: "fst (lint ex_cfg net_post_refused plainEncodeURI ex_path_mode None ex_world)
       = Inr (ErrorContainer (failedToReachServerError ex_cfg))"
    by (simp add: lint_rejected_eq [OF h p])
  have c: "failedToReachServerError ex_cfg
       = \<lparr>error = \<lparr>code = FailedToReachServer,
              message = ''Query failed to reach dbt sync server.'',
              data = [(''error'',
                DString ''Is the server listening on the http://localhost:8581 address?'')]\<rparr>\<rparr>"
    by (simp add: failedToReachServerError_def ex_cfg_def)
  have d: "dbtInterfaceHost ex_cfg = ''localhost''" "dbtInterfacePort ex_cfg = ''8581''"
    by (simp_all add: ex_cfg_def)
  show ?thesis
    using h p l s1 s2 d unfolding c by blast
qed

text \<open>
  C2, amended. When the health check passes and the POST attempt rejects or aborts
  (a failed \<^verbatim>\<open>fetch\<close>, an abort when the timer fires first, or \<^verbatim>\<open>encodeURI\<close>
  throwing), \<^verbatim>\<open>lint\<close> and \<^verbatim>\<open>format\<close> return the payload whose code is
  \<^verbatim>\<open>FailedToReachServer\<close> (the number -1), whose message is the fixed sentence
  \<^verbatim>\<open>Query failed to reach dbt sync server.\<close> and whose detail field \<^verbatim>\<open>error\<close> is
  the hint naming \<^verbatim>\<open>http://<host>:<port>\<close>: the detail, not the message, contains the
  configured host and port.
\<close>
theorem post_rejected_returns_failedToReachServerError:
  assumes "fst (healthCheck cfg net w) = Inr True"
  shows "(lintResponse cfg net enc this t = Inl e \<longrightarrow>
            fst (lint cfg net enc this t w) = Inr (ErrorContainer (failedToReachServerError cfg)))
    \<and> (formatResponse cfg net enc this t = Inl e' \<longrightarrow>
            fst (format cfg net enc this t w) = Inr (ErrorContainer (failedToReachServerError cfg)))
    \<and> code (error (failedToReachServerError cfg)) = FailedToReachServer
    \<and> code_number (code (error (failedToReachServerError cfg))) = - 1
    \<and> message (error (failedToReachServerError cfg)) = ''Query failed to reach dbt sync server.''
    \<and> data (error (failedToReachServerError cfg))
        = [(''error'', DString (''Is the server listening on the http://''
              @ dbtInterfaceHost cfg @ '':'' @ dbtInterfacePort cfg @ '' address?''))]
    \<and> sublist (dbtInterfaceHost cfg)
         (''Is the server listening on the http://''
            @ dbtInterfaceHost cfg @ '':'' @ dbtInterfacePort cfg @ '' address?'')
    \<and> sublist (dbtInterfacePort cfg)
         (''Is the server listening on the http://''
            @ dbtInterfaceHost cfg @ '':'' @ dbtInterfacePort cfg @ '' address?'')"
proof -
  have host: "sublist (dbtInterfaceHost cfg)
         (''Is the server listening on the http://''
            @ dbtInterfaceHost cfg @ ('':'' @ dbtInterfacePort cfg @ '' address?''))"
    by (rule sublist_appendI)
  have port: "sublist (dbtInterfacePort cfg)
         ((''Is the server listening on the http://'' @ dbtInterfaceHost cfg @ '':'')
            @ dbtInterfacePort cfg @ '' address?'')"
    by (rule sublist_appendI)
  show ?thesis
    using host port
    by (simp add: lint_rejected_eq [OF assms] format_rejected_eq [OF assms]
        failedToReachServerError_def)
qed

theorem post_rejected_returns_failedToReachServerError_witness:
  "fst (healthCheck ex_cfg net_post_hangs ex_world) = Inr True
   \<and> lintResponse ex_cfg net_post_hangs plainEncodeURI ex_path_mode (Some 100) = Inl AbortError
   \<and> formatResponse ex_cfg net_post_hangs plainEncodeURI ex_path_mode (Some 100) = Inl AbortError
   \<and> fst (lint ex_cfg net_post_hangs plainEncodeURI ex_path_mode (Some 100) ex_world)
       = Inr (ErrorContainer (failedToReachServerError ex_cfg))
   \<and> fst (format ex_cfg net_post_hangs plainEncodeURI ex_path_mode (Some 100) ex_world)
       = Inr (ErrorContainer (failedToReachServerError ex_cfg))
   \<and> data (error (failedToReachServerError ex_cfg))
       = [(''error'', DString ''Is the server listening on the http://localhost:8581 address?'')]"
proof -
  have h: "fst (healthCheck ex_cfg net_post_hangs ex_world) = Inr True"
    by (simp add: healthCheck_eq healthResponse_def net_post_hangs_def ex_ok_def)
  have l: "lintResponse ex_cfg net_post_hangs plainEncodeURI ex_path_mode (Some 100) = Inl AbortError"
    by (simp add: lintResponse_def plainEncodeURI_def net_post_hangs_def)
  have f: "formatResponse ex_cfg net_post_hangs plainEncodeURI ex_path_mode (Some 100) = Inl AbortError"
    by (simp add: formatResponse_def plainEncodeURI_def net_post_hangs_def)
  show ?thesis
    using post_rejected_returns_failedToReachServerError
      [OF h, where enc = plainEncodeURI and this = ex_path_mode and t = "Some 100"
         and e = AbortError and e' = AbortError] h l f
    by (simp add: ex_cfg_def)
qed

text \<open>
  C3. When the health check passes and the POST resolves with a response whose
  \<^verbatim>\<open>json()\<close> gives the value \<open>v\<close>, \<^verbatim>\<open>lint\<close> and \<^verbatim>\<open>format\<close> return \<open>v\<close> itself.
  The value is of an arbitrary type: nothing looks at its shape. At the witness a
  \<^verbatim>\<open>format\<close> POST answered with status 200 and the body \<^verbatim>\<open>{"result":"ok"}\<close> gives
  that body back.
\<close>
theorem post_resolved_returns_parsed_json:
  assumes "fst (healthCheck cfg net w) = Inr True"
  shows "(lintResponse cfg net enc this t = Inr r \<and> json r = Inr v \<longrightarrow>
            fst (lint cfg net enc this t w) = Inr (Parsed v))
    \<and> (formatResponse cfg net enc this t = Inr r' \<and> json r' = Inr v' \<longrightarrow>
            fst (format cfg net enc this t w) = Inr (Parsed v'))"
  by (auto simp: lint_resolved_eq [OF assms] format_resolved_eq [OF assms])

theorem post_resolved_returns_parsed_json_witness:
  "fst (healthCheck ex_cfg net_ok ex_world) = Inr True
   \<and> lintResponse ex_cfg net_ok plainEncodeURI ex_path_mode None = Inr ex_ok
   \<and> formatResponse ex_cfg net_ok plainEncodeURI ex_path_mode None = Inr ex_ok
   \<and> status ex_ok = 200
   \<and> json ex_ok = Inr \<lparr>result = ''ok''\<rparr>
   \<and> fst (lint ex_cfg net_ok plainEncodeURI ex_path_mode None ex_world)
       = Inr (Parsed \<lparr>result = ''ok''\<rparr>)
   \<and> fst (format ex_cfg net_ok plainEncodeURI ex_path_mode None ex_world)
       = Inr (Parsed \<lparr>result = ''ok''\<rparr>)"
proof -
  have h: "fst (healthCheck ex_cfg net_ok ex_world) = Inr True"
    by (simp add: healthCheck_eq healthResponse_def net_ok_def ex_ok_def)
  have l: "lintResponse ex_cfg net_ok plainEncodeURI ex_path_mode None = Inr ex_ok"
    by (simp add: lintResponse_def plainEncodeURI_def net_ok_def)
  have f: "formatResponse ex_cfg net_ok plainEncodeURI ex_path_mode None = Inr ex_ok"
    by (simp add: formatResponse_def plainEncodeURI_def net_ok_def)
  have j: "json ex_ok = Inr \<lparr>result = ''ok''\<rparr>" and s: "status ex_ok = 200"
    by (simp_all add: ex_ok_def)
  show ?thesis
    using post_resolved_returns_parsed_json
      [OF h, where enc = plainEncodeURI and this = ex_path_mode and t = None
         and r = ex_ok and v = "\<lparr>result = ''ok''\<rparr>" and r' = ex_ok
         and v' = "\<lparr>result = ''ok''\<rparr>"]
      h l f j s
    by simp
qed

text \<open>
  C4, as the claim has it, fails. The \<^verbatim>\<open>await response.json()\<close> of \<^verbatim>\<open>lint\<close> and
  \<^verbatim>\<open>format\<close> is after the \<^verbatim>\<open>try\<close>/\<^verbatim>\<open>catch\<close>: with the health check passing and
  the POST answered by a body that is not JSON, the rejection of \<^verbatim>\<open>json()\<close> escapes
  to the caller of either operation.
\<close>
theorem lint_invalid_json_counterexample:
  "fst (healthCheck ex_cfg net_not_json ex_world) = Inr True
   \<and> lintResponse ex_cfg net_not_json plainEncodeURI ex_path_mode None = Inr ex_not_json
   \<and> fst (lint ex_cfg net_not_json plainEncodeURI ex_path_mode None ex_world)
       = Inl (InvalidJson ''Unexpected token < in JSON at position 0'')
   \<and> fst (format ex_cfg net_not_json plainEncodeURI ex_path_mode None ex_world)
       = Inl (InvalidJson ''Unexpected token < in JSON at position 0'')"
proof -
  have h: "fst (healthCheck ex_cfg net_not_json ex_world) = Inr True"
    by (simp add: healthCheck_eq healthResponse_def net_not_json_def ex_ok_def)
  have l: "lintResponse ex_cfg net_not_json plainEncodeURI ex_path_mode None = Inr ex_not_json"
    by (simp add: lintResponse_def plainEncodeURI_def net_not_json_def)
  have f: "formatResponse ex_cfg net_not_json plainEncodeURI ex_path_mode None = Inr ex_not_json"
    by (simp add: formatResponse_def plainEncodeURI_def net_not_json_def)
  show ?thesis
    by (simp add: h l lint_resolved_eq [OF h l] format_resolved_eq [OF h f] ex_not_json_def)
qed

text \<open>
  C4, amended. \<^verbatim>\<open>healthCheck\<close> always resolves, with a boolean. \<^verbatim>\<open>lint\<close> and
  \<^verbatim>\<open>format\<close> absorb an unhealthy project and a rejected or aborted POST into the
  payload they return; the one exception that escapes them is the rejection of
  \<^verbatim>\<open>response.json()\<close>, after a health check that passed and a POST that resolved:
  \<^verbatim>\<open>lint\<close> (\<^verbatim>\<open>format\<close>) rejects with \<open>e\<close> exactly when that happens with \<open>e\<close>.
\<close>
theorem exceptions_escape_only_from_json:
  "(fst (healthCheck cfg net w) = Inr True \<or> fst (healthCheck cfg net w) = Inr False)
   \<and> (fst (lint cfg net enc this t w) = Inl e)
       = (fst (healthCheck cfg net w) = Inr True
          \<and> (\<exists>r. lintResponse cfg net enc this t = Inr r \<and> json r = Inl e))
   \<and> (fst (format cfg net enc this t w) = Inl e)
       = (fst (healthCheck cfg net w) = Inr True
          \<and> (\<exists>r. formatResponse cfg net enc this t = Inr r \<and> json r = Inl e))"
proof -
  have l: "(fst (lint cfg net enc this t w) = Inl e)
       = (fst (healthCheck cfg net w) = Inr True
          \<and> (\<exists>r. lintResponse cfg net enc this t = Inr r \<and> json r = Inl e))"
  proof (cases rule: lint_paths [where cfg = cfg and net = net and w = w and enc = enc and this = this and t = t])
    case unhealthy
    then show ?thesis by (simp add: lint_unhealthy_eq)
  next
    case (rejected x)
    then show ?thesis by (simp add: lint_rejected_eq)
  next
    case (resolved r)
    then show ?thesis by (simp add: lint_resolved_eq split: sum.splits)
  qed
  have f: "(fst (format cfg net enc this t w) = Inl e)
       = (fst (healthCheck cfg net w) = Inr True
          \<and> (\<exists>r. formatResponse cfg net enc this t = Inr r \<and> json r = Inl e))"
  proof (cases rule: format_paths [where cfg = cfg and net = net and w = w and enc = enc and this = this and t = t])
    case unhealthy
    then show ?thesis by (simp add: format_unhealthy_eq)
  next
    case (rejected x)
    then show ?thesis by (simp add: format_rejected_eq)
  next
    case (resolved r)
    then show ?thesis by (simp add: format_resolved_eq split: sum.splits)
  qed
  show ?thesis using healthCheck_bool [of cfg net w] l f by simp
qed

text \<open>
  C5. On every path of \<^verbatim>\<open>healthCheck\<close>, \<^verbatim>\<open>lint\<close> and \<^verbatim>\<open>format\<close> (whatever the
  network does, whatever the timeout, whether \<^verbatim>\<open>json()\<close> rejects or not) the
  \<^verbatim>\<open>clearTimeout\<close> calls of the invocation are exactly the handles of the timers it
  created, in the order of creation and without repetition: each timer is cleared
  once, by the time the invocation returns.
\<close>
theorem timers_cleared_exactly_once:
  "clearsItsTimers w (snd (healthCheck cfg net w))
   \<and> clearsItsTimers w (snd (lint cfg net enc this t w))
   \<and> clearsItsTimers w (snd (format cfg net enc this t w))"
proof -
  have h: "clearsItsTimers w (snd (healthCheck cfg net w))"
    by (simp add: healthCheck_eq clearsItsTimers_def timersDuring_def clearedDuring_def)
  have l: "clearsItsTimers w (snd (lint cfg net enc this t w))"
  proof (cases rule: lint_paths [where cfg = cfg and net = net and w = w and enc = enc
        and this = this and t = t])
    case unhealthy
    then show ?thesis
      by (simp add: lint_unhealthy_eq clearsItsTimers_def timersDuring_def clearedDuring_def)
  next
    case (rejected e)
    then show ?thesis
      by (simp add: lint_rejected_eq clearsItsTimers_def timersDuring_def clearedDuring_def)
  next
    case (resolved r)
    then show ?thesis
      by (simp add: lint_resolved_eq clearsItsTimers_def timersDuring_def clearedDuring_def)
  qed
  have f: "clearsItsTimers w (snd (format cfg net enc this t w))"
  proof (cases rule: format_paths [where cfg = cfg and net = net and w = w and enc = enc
        and this = this and t = t])
    case unhealthy
    then show ?thesis
      by (simp add: format_unhealthy_eq clearsItsTimers_def timersDuring_def clearedDuring_def)
  next
    case (rejected e)
    then show ?thesis
      by (simp add: format_rejected_eq clearsItsTimers_def timersDuring_def clearedDuring_def)
  next
    case (resolved r)
    then show ?thesis
      by (simp add: format_resolved_eq clearsItsTimers_def timersDuring_def clearedDuring_def)
  qed
  show ?thesis using h l f by simp
qed

text \<open>
  C6. With the SQL text defined (whatever it is, whatever the SQL path) and the
  extra-config path \<^verbatim>\<open>cfg.yml\<close>, \<^verbatim>\<open>getLintURL\<close> returns
  \<^verbatim>\<open>http://<host>:<port>/lint?&extra_config_path=cfg.yml\<close>: it ends with
  \<^verbatim>\<open>/lint?&extra_config_path=cfg.yml\<close>, leading \<^verbatim>\<open>&\<close> included, and what follows
  the configured \<^verbatim>\<open>http://<host>:<port>\<close> has no \<^verbatim>\<open>sql_path\<close> in it.
\<close>
theorem lintURL_sql_text_with_extra_config:
  "getLintURL cfg (constructor (Some text) path ''cfg.yml'')
     = ''http://'' @ dbtInterfaceHost cfg @ '':'' @ dbtInterfacePort cfg
         @ ''/lint?&extra_config_path=cfg.yml''
   \<and> suffix ''/lint?&extra_config_path=cfg.yml''
        (getLintURL cfg (constructor (Some text) path ''cfg.yml''))
   \<and> \<not> sublist ''sql_path''
        (drop (length (''http://'' @ dbtInterfaceHost cfg @ '':'' @ dbtInterfacePort cfg))
           (getLintURL cfg (constructor (Some text) path ''cfg.yml'')))"
proof -
  have u: "getLintURL cfg (constructor (Some text) path ''cfg.yml'')
     = (''http://'' @ dbtInterfaceHost cfg @ '':'' @ dbtInterfacePort cfg)
         @ ''/lint?&extra_config_path=cfg.yml''"
    by (simp add: getLintURL_def constructor_def)
  have s: "suffix ''/lint?&extra_config_path=cfg.yml''
        (getLintURL cfg (constructor (Some text) path ''cfg.yml''))"
    unfolding u by (rule suffix_appendI) simp
  have n: "\<not> sublist ''sql_path'' ''/lint?&extra_config_path=cfg.yml''"
    by code_simp
  have d: "drop (length (''http://'' @ dbtInterfaceHost cfg @ '':'' @ dbtInterfacePort cfg))
           (getLintURL cfg (constructor (Some text) path ''cfg.yml''))
        = ''/lint?&extra_config_path=cfg.yml''"
    unfolding u by (metis append_eq_conv_conj)
  show ?thesis using u s n unfolding d by simp
qed

text \<open>
  C7. With the SQL text undefined, the SQL path \<^verbatim>\<open>models/a.sql\<close> and an empty
  extra-config path, \<^verbatim>\<open>getLintURL\<close> returns exactly
  \<^verbatim>\<open>http://<host>:<port>/lint?sql_path=models/a.sql\<close>, which does not end with
  \<^verbatim>\<open>&\<close>.
\<close>
theorem lintURL_path_mode:
  "getLintURL cfg (constructor None (Some ''models/a.sql'') '''')
     = ''http://'' @ dbtInterfaceHost cfg @ '':'' @ dbtInterfacePort cfg
         @ ''/lint?sql_path=models/a.sql''
   \<and> \<not> suffix ''&'' (getLintURL cfg (constructor None (Some ''models/a.sql'') ''''))"
proof -
  have u: "getLintURL cfg (constructor None (Some ''models/a.sql'') '''')
     = (''http://'' @ dbtInterfaceHost cfg @ '':'' @ dbtInterfacePort cfg
         @ ''/lint?sql_path=models/a.sq'') @ ''l''"
    by (simp add: getLintURL_def constructor_def)
  have "\<not> suffix ''&'' (getLintURL cfg (constructor None (Some ''models/a.sql'') ''''))"
    unfolding u by (auto simp: suffix_def)
  with u show ?thesis by simp
qed

text \<open>
  C8. \<^verbatim>\<open>healthCheck\<close> always resolves, with \<^verbatim>\<open>true\<close> or \<^verbatim>\<open>false\<close>: with
  \<^verbatim>\<open>true\<close> exactly when the GET of \<^verbatim>\<open>/health\<close> resolves with status 200, with
  \<^verbatim>\<open>false\<close> in every other case (another status, a failed request, an abort by the
  one-second timer).
\<close>
theorem healthCheck_boolean:
  "(fst (healthCheck cfg net w) = Inr True \<or> fst (healthCheck cfg net w) = Inr False)
   \<and> (fst (healthCheck cfg net w) = Inr True)
       = (\<exists>r. healthResponse cfg net = Inr r \<and> status r = 200)
   \<and> (fst (healthCheck cfg net w) = Inr False)
       = (\<nexists>r. healthResponse cfg net = Inr r \<and> status r = 200)"
  by (cases "healthResponse cfg net") (auto simp: healthCheck_eq)

text \<open>
  C9. \<^verbatim>\<open>lint\<close> and \<^verbatim>\<open>format\<close> only append to the output channel, and they append
  nothing exactly on the success path, where the health check passes and the POST
  resolves; on the two failure paths (unhealthy project; POST attempt rejected or
  aborted) they append lines.
\<close>
theorem output_only_on_failure:
  "outputChannel (snd (lint cfg net enc this t w))
     = outputChannel w @ outputDuring w (snd (lint cfg net enc this t w))
   \<and> (outputDuring w (snd (lint cfg net enc this t w)) = [])
       = (fst (healthCheck cfg net w) = Inr True
          \<and> (\<exists>r. lintResponse cfg net enc this t = Inr r))
   \<and> outputChannel (snd (format cfg net enc this t w))
     = outputChannel w @ outputDuring w (snd (format cfg net enc this t w))
   \<and> (outputDuring w (snd (format cfg net enc this t w)) = [])
       = (fst (healthCheck cfg net w) = Inr True
          \<and> (\<exists>r. formatResponse cfg net enc this t = Inr r))"
proof -
  have l: "outputChannel (snd (lint cfg net enc this t w))
     = outputChannel w @ outputDuring w (snd (lint cfg net enc this t w))
   \<and> (outputDuring w (snd (lint cfg net enc this t w)) = [])
       = (fst (healthCheck cfg net w) = Inr True
          \<and> (\<exists>r. lintResponse cfg net enc this t = Inr r))"
  proof (cases rule: lint_paths [where cfg = cfg and net = net and w = w and enc = enc
        and this = this and t = t])
    case unhealthy
    then show ?thesis by (simp add: lint_unhealthy_eq outputDuring_def)
  next
    case (rejected e)
    then show ?thesis by (simp add: lint_rejected_eq outputDuring_def)
  next
    case (resolved r)
    then show ?thesis by (simp add: lint_resolved_eq outputDuring_def)
  qed
  have f: "outputChannel (snd (format cfg net enc this t w))
     = outputChannel w @ outputDuring w (snd (format cfg net enc this t w))
   \<and> (outputDuring w (snd (format cfg net enc this t w)) = [])
       = (fst (healthCheck cfg net w) = Inr True
          \<and> (\<exists>r. formatResponse cfg net enc this t = Inr r))"
  proof (cases rule: format_paths [where cfg = cfg and net = net and w = w and enc = enc
        and this = this and t = t])
    case unhealthy
    then show ?thesis by (simp add: format_unhealthy_eq outputDuring_def)
  next
    case (rejected e)
    then show ?thesis by (simp add: format_rejected_eq outputDuring_def)
  next
    case (resolved r)
    then show ?thesis by (simp add: format_resolved_eq outputDuring_def)
  qed
  show ?thesis using l f by simp
qed

text \<open>
  C10. With the SQL text and the SQL path both undefined and an empty extra-config
  path, \<^verbatim>\<open>getLintURL\<close> and \<^verbatim>\<open>getFormatURL\<close> return
  \<^verbatim>\<open>http://<host>:<port>/lint?sql_path=undefined\<close> and
  \<^verbatim>\<open>http://<host>:<port>/format?sql_path=undefined\<close>: the missing path is
  interpolated as the text \<^verbatim>\<open>undefined\<close>.
\<close>
theorem urls_interpolate_undefined_path:
  "getLintURL cfg (constructor None None '''')
     = ''http://'' @ dbtInterfaceHost cfg @ '':'' @ dbtInterfacePort cfg
         @ ''/lint?sql_path=undefined''
   \<and> getFormatURL cfg (constructor None None '''')
     = ''http://'' @ dbtInterfaceHost cfg @ '':'' @ dbtInterfacePort cfg
         @ ''/format?sql_path=undefined''
   \<and> sublist ''sql_path=undefined'' (getLintURL cfg (constructor None None ''''))
   \<and> sublist ''sql_path=undefined'' (getFormatURL cfg (constructor None None ''''))"
proof -
  have l: "getLintURL cfg (constructor None None '''')
     = (''http://'' @ dbtInterfaceHost cfg @ '':'' @ dbtInterfacePort cfg @ ''/lint?'')
         @ ''sql_path=undefined''"
    by (simp add: getLintURL_def constructor_def)
  have f: "getFormatURL cfg (constructor None None '''')
     = (''http://'' @ dbtInterfaceHost cfg @ '':'' @ dbtInterfacePort cfg @ ''/format?'')
         @ ''sql_path=undefined''"
    by (simp add: getFormatURL_def constructor_def)
  have sl: "sublist ''sql_path=undefined'' (getLintURL cfg (constructor None None ''''))"
    unfolding l by (rule sublist_append_leftI)
  have sf: "sublist ''sql_path=undefined'' (getFormatURL cfg (constructor None None ''''))"
    unfolding f by (rule sublist_append_leftI)
  show ?thesis using l f sl sf by simp
qed

end
